theory Spec2Isabelle
  imports Complex_Main
begin

section \<open>Documents of the Group and Expense collections\<close>

text \<open>
  The ledger state of the backend is held in two MongoDB collections, declared by
  \<^verbatim>\<open>groupSchema\<close> and \<^verbatim>\<open>expenseSchema\<close> of \<^verbatim>\<open>models.js\<close>. A document is a record of the
  fields its schema declares. An ObjectId is the position of the document in its
  collection: Mongo hands out a fresh id at every \<^verbatim>\<open>create\<close>, and no route of
  \<^verbatim>\<open>index.js\<close> deletes a document, so a collection is the list of its documents in the
  order of insertion. Ids of users are natural numbers as well; the User collection
  itself, and the routes on it (signup, login, friend invites), do not touch groups or
  expenses and are not part of this development.

  A JSON number is stored and returned by the routes below and never computed with, so
  it is a rational here. A date is a count of milliseconds since the epoch. The
  bookkeeping Mongoose adds to every document (the version key and the two timestamps of
  \<^verbatim>\<open>timestamps: true\<close>) is not a field of the schemas and is left out.
\<close>

type_synonym objectId = nat
type_synonym number = rat
type_synonym time = int

text \<open>One entry of \<^verbatim>\<open>expenseSchema.splits\<close>; no path of it is required.\<close>

record Split =
  userId :: "objectId option"
  shareAmount :: "number option"
  split_paid :: bool

record Expense =
  label :: string
  amount :: number
  date :: time
  group :: objectId
  splits :: "Split list"
  paid :: bool

record Group =
  name :: string
  createdBy :: objectId
  members :: "objectId list"
  expenses :: "objectId list"

record db =
  group_docs :: "Group list"
  expense_docs :: "Expense list"

section \<open>Request bodies\<close>

text \<open>
  \<^verbatim>\<open>req.body\<close> is parsed JSON of any shape, and the expense route hands its fields to
  Mongoose as they come. Mongoose casts each value to the type of its schema path, and a
  value that does not cast makes the document invalid. The casts themselves are not
  spelled out here: a field of the body is described by what the cast of its path makes
  of it.
  \<^item> \<open>Missing\<close>: the body has no such field (or, at a path other than \<^verbatim>\<open>paid\<close>, has
    \<^verbatim>\<open>null\<close> there, which is stored and validated as no value);
  \<^item> \<open>Given v\<close>: the field is there and casts to \<open>v\<close>;
  \<^item> \<open>Uncastable\<close>: the field is there and does not cast (\<^verbatim>\<open>userId: "alice"\<close>,
    \<^verbatim>\<open>shareAmount: "thirty"\<close>).
\<close>

datatype 'a field = Missing | Given 'a | Uncastable

text \<open>
  An entry of \<^verbatim>\<open>splits\<close> is documented in the route as \<^verbatim>\<open>{ userId, shareAmount }\<close>, but since
  the array is not filtered an entry may also carry the third path of the schema,
  \<^verbatim>\<open>paid\<close>. An entry that is no object at all does not cast and stands here as an entry
  with an uncastable path. A missing \<^verbatim>\<open>splits\<close> is the empty array, the schema's default.
\<close>

record split_body =
  req_userId :: "objectId field"
  req_shareAmount :: "number field"
  req_paid :: "bool field"

text \<open>
  The route reads \<^verbatim>\<open>date\<close> itself, in \<^verbatim>\<open>date || new Date()\<close>, before Mongoose casts it, so
  more of the value is kept: \<open>Falsy\<close> is a missing field, \<^verbatim>\<open>null\<close>, \<^verbatim>\<open>false\<close> or the empty
  string; \<open>Millis n\<close> is the JSON number \<open>n\<close>; \<open>Other c\<close> is any other value, all of them
  truthy (a string that is not empty, \<^verbatim>\<open>true\<close>, an object), with what the cast to a date
  makes of it: \<open>Some t\<close>, or \<open>None\<close> when it does not cast.
\<close>

datatype date_json = Falsy | Millis number | Other "time option"

record expense_body =
  req_label :: "string field"
  req_amount :: "number field"
  req_date :: date_json
  req_splits :: "split_body list"

text \<open>
  The body of the group route is taken with fields that cast: \<open>None\<close> is a missing field
  and \<open>Some v\<close> a field that casts to \<open>v\<close>.
\<close>

record group_body =
  req_name :: "string option"
  req_members :: "objectId list option"

text \<open>
  \<^verbatim>\<open>req.params.id\<close> and \<^verbatim>\<open>req.params.groupId\<close> are strings of the URL; \<^verbatim>\<open>findById\<close> casts them
  to an ObjectId, and not every string is one.
\<close>

datatype param = ObjectId objectId | NotObjectId

section \<open>Failures\<close>

text \<open>
  \<open>NotFound\<close> is a \<^verbatim>\<open>res.status(404).json({ error: ... })\<close>. \<open>ValidationError\<close> is the
  rejection of \<^verbatim>\<open>Model.create\<close> when the document is invalid: a \<^verbatim>\<open>required: true\<close> path is
  missing, or a value does not cast. \<open>CastError\<close> is the rejection of \<^verbatim>\<open>findById\<close> when the
  id does not cast, and \<open>TypeError\<close> the exception of spreading \<^verbatim>\<open>undefined\<close> into an array
  literal. The routes catch none of the three, so the handler ends there. The routes
  send no other failure after \<^verbatim>\<open>auth\<close> has let the request through.
\<close>

datatype error = NotFound string | ValidationError | CastError | TypeError

section \<open>Mongoose: lookup, validation and casting\<close>

definition Group_findById :: "db \<Rightarrow> objectId \<Rightarrow> Group option" where
  "Group_findById d i =
     (if i < length (group_docs d) then Some (group_docs d ! i) else None)"

definition Expense_findById :: "db \<Rightarrow> objectId \<Rightarrow> Expense option" where
  "Expense_findById d i =
     (if i < length (expense_docs d) then Some (expense_docs d ! i) else None)"

text \<open>
  \<^verbatim>\<open>{ type: String, required: true }\<close>: the required validator of a string path rejects a
  missing value and the empty string. \<open>required_String\<close> is the validator on the body of
  the group route; \<open>label_path\<close> is the path \<^verbatim>\<open>label\<close> of a new expense, \<open>None\<close> when the
  document is invalid there.
\<close>

definition required_String :: "string option \<Rightarrow> bool" where
  "required_String v = (case v of None \<Rightarrow> False | Some s \<Rightarrow> s \<noteq> [])"

definition label_path :: "string field \<Rightarrow> string option" where
  "label_path f =
     (case f of
        Missing \<Rightarrow> None
      | Given s \<Rightarrow> if s = [] then None else Some s
      | Uncastable \<Rightarrow> None)"

text \<open>
  \<^verbatim>\<open>{ type: Number, required: true }\<close> rejects a missing value and bounds nothing: the
  schema gives \<^verbatim>\<open>amount\<close> no \<^verbatim>\<open>min\<close>.
\<close>

definition amount_path :: "number field \<Rightarrow> number option" where
  "amount_path f =
     (case f of Missing \<Rightarrow> None | Given a \<Rightarrow> Some a | Uncastable \<Rightarrow> None)"

text \<open>
  \<^verbatim>\<open>date: date || new Date()\<close>, then the cast of \<^verbatim>\<open>{ type: Date }\<close>. A falsy value, the number
  0 among them, gives way to \<open>now\<close>, which is what \<^verbatim>\<open>new Date()\<close> reads. A number becomes
  the date of that many milliseconds, cut to a whole number, unless it lies beyond the
  8.64e15 milliseconds on either side of the epoch that a date can hold; then it does
  not cast.
\<close>

definition ToInteger :: "number \<Rightarrow> int" where
  "ToInteger n = (if 0 \<le> n then \<lfloor>n\<rfloor> else \<lceil>n\<rceil>)"

definition TimeClip :: "number \<Rightarrow> time option" where
  "TimeClip n = (if \<bar>n\<bar> \<le> 8640000000000000 then Some (ToInteger n) else None)"

definition date_path :: "time \<Rightarrow> date_json \<Rightarrow> time option" where
  "date_path now j =
     (case j of
        Falsy \<Rightarrow> Some now
      | Millis n \<Rightarrow> if n = 0 then Some now else TimeClip n
      | Other c \<Rightarrow> (case c of None \<Rightarrow> None | Some t \<Rightarrow> TimeClip (of_int t)))"

text \<open>
  A split entry becomes a subdocument when its three paths cast; \<^verbatim>\<open>paid\<close> takes its
  default, false, only when the entry has none.
\<close>

definition value_of :: "'a field \<Rightarrow> 'a option" where
  "value_of f = (case f of Missing \<Rightarrow> None | Given v \<Rightarrow> Some v | Uncastable \<Rightarrow> None)"

definition cast_split :: "split_body \<Rightarrow> Split option" where
  "cast_split s =
     (if req_userId s = Uncastable \<or> req_shareAmount s = Uncastable \<or> req_paid s = Uncastable
      then None
      else Some \<lparr>userId = value_of (req_userId s),
                 shareAmount = value_of (req_shareAmount s),
                 split_paid = (case req_paid s of
                                 Missing \<Rightarrow> False | Given b \<Rightarrow> b | Uncastable \<Rightarrow> False)\<rparr>)"

fun splits_path :: "split_body list \<Rightarrow> Split list option" where
  "splits_path [] = Some []"
| "splits_path (s # ss) =
     (case cast_split s of
        None \<Rightarrow> None
      | Some x \<Rightarrow> (case splits_path ss of None \<Rightarrow> None | Some xs \<Rightarrow> Some (x # xs)))"

text \<open>
  The document \<^verbatim>\<open>Expense.create\<close> is given by the route, or \<open>None\<close> when it is invalid at
  one of its paths. \<^verbatim>\<open>paid: false\<close> is written by the route and read from nowhere.
\<close>

definition new_Expense :: "objectId \<Rightarrow> time \<Rightarrow> expense_body \<Rightarrow> Expense option" where
  "new_Expense groupId now body =
     (case label_path (req_label body) of
        None \<Rightarrow> None
      | Some l \<Rightarrow>
     (case amount_path (req_amount body) of
        None \<Rightarrow> None
      | Some a \<Rightarrow>
     (case date_path now (req_date body) of
        None \<Rightarrow> None
      | Some t \<Rightarrow>
     (case splits_path (req_splits body) of
        None \<Rightarrow> None
      | Some ss \<Rightarrow>
          Some \<lparr>label = l, amount = a, date = t, group = groupId,
                splits = ss, paid = False\<rparr>))))"

section \<open>The routes\<close>

text \<open>
  Every route below runs behind \<^verbatim>\<open>auth\<close>; \<open>user\<close> is \<^verbatim>\<open>req.user._id\<close>, the id of the user the
  token resolved to. A route returns what it answers and the collections as it leaves
  them.
\<close>

text \<open>\<^verbatim>\<open>POST /api/group/create\<close>\<close>

definition createGroup ::
  "db \<Rightarrow> objectId \<Rightarrow> group_body \<Rightarrow> (error + objectId \<times> Group) \<times> db" where
  "createGroup d user body =
     (case req_members body of
        None \<Rightarrow> (Inl TypeError, d)
      | Some ms \<Rightarrow>
          if required_String (req_name body) then
            let g = \<lparr>name = the (req_name body), createdBy = user,
                     members = user # ms, expenses = []\<rparr>
            in (Inr (length (group_docs d), g),
                d\<lparr>group_docs := group_docs d @ [g]\<rparr>)
          else (Inl ValidationError, d))"

text \<open>
  \<^verbatim>\<open>POST /api/group/:groupId/expense\<close>, for a \<^verbatim>\<open>groupId\<close> that is an ObjectId. The group is
  looked up first; the expense is created, and then its id pushed to the group.
\<close>

definition createExpense ::
  "db \<Rightarrow> objectId \<Rightarrow> objectId \<Rightarrow> time \<Rightarrow> expense_body \<Rightarrow>
     (error + objectId \<times> Expense) \<times> db" where
  "createExpense d user groupId now body =
     (case Group_findById d groupId of
        None \<Rightarrow> (Inl (NotFound ''Group not found''), d)
      | Some g \<Rightarrow>
          (case new_Expense groupId now body of
             None \<Rightarrow> (Inl ValidationError, d)
           | Some e \<Rightarrow>
               let eid = length (expense_docs d)
               in (Inr (eid, e),
                   d\<lparr>expense_docs := expense_docs d @ [e],
                     group_docs := (group_docs d)
                       [groupId := g\<lparr>expenses := expenses g @ [eid]\<rparr>]\<rparr>)))"

text \<open>\<^verbatim>\<open>POST /api/expense/:id/markPaid\<close>, for an \<^verbatim>\<open>id\<close> that is an ObjectId.\<close>

definition markPaid :: "db \<Rightarrow> objectId \<Rightarrow> objectId \<Rightarrow> (error + string) \<times> db" where
  "markPaid d user i =
     (case Expense_findById d i of
        None \<Rightarrow> (Inl (NotFound ''Expense not found''), d)
      | Some e \<Rightarrow>
          (Inr ''Expense marked as paid'',
           d\<lparr>expense_docs := (expense_docs d)[i := e\<lparr>paid := True\<rparr>]\<rparr>))"

text \<open>
  The two routes on the strings of the URL: \<^verbatim>\<open>findById\<close> rejects an id that does not
  cast before it reads anything.
\<close>

definition route_expense ::
  "db \<Rightarrow> objectId \<Rightarrow> param \<Rightarrow> time \<Rightarrow> expense_body \<Rightarrow>
     (error + objectId \<times> Expense) \<times> db" where
  "route_expense d user p now body =
     (case p of
        NotObjectId \<Rightarrow> (Inl CastError, d)
      | ObjectId groupId \<Rightarrow> createExpense d user groupId now body)"

definition route_markPaid :: "db \<Rightarrow> objectId \<Rightarrow> param \<Rightarrow> (error + string) \<times> db" where
  "route_markPaid d user p =
     (case p of
        NotObjectId \<Rightarrow> (Inl CastError, d)
      | ObjectId i \<Rightarrow> markPaid d user i)"

section \<open>Sequences of requests\<close>

text \<open>
  The three routes above are the only ones that write to the two collections
  (\<^verbatim>\<open>GET /api/dashboard\<close> reads them). A history of the ledger is a list of their requests,
  served one after the other; a request whose id is no ObjectId writes nothing and is
  not listed.
\<close>

datatype request =
    CreateGroup objectId group_body
  | CreateExpense objectId objectId time expense_body
  | MarkPaid objectId objectId

fun handle :: "db \<Rightarrow> request \<Rightarrow> db" where
  "handle d (CreateGroup user body) = snd (createGroup d user body)"
| "handle d (CreateExpense user groupId now body) = snd (createExpense d user groupId now body)"
| "handle d (MarkPaid user i) = snd (markPaid d user i)"

definition serve :: "db \<Rightarrow> request list \<Rightarrow> db" where
  "serve d rs = foldl handle d rs"

text \<open>
  What the request said of a stored value: the field that casts to it, for comparing a
  stored split with the entry it came from.
\<close>

definition field_of :: "'a option \<Rightarrow> 'a field" where
  "field_of v = (case v of None \<Rightarrow> Missing | Some x \<Rightarrow> Given x)"

section \<open>Sample states and requests\<close>

text \<open>
  Users 1, 2 and 3 share the group ``Trip'', created by user 1; user 7 is a stranger.
  \<open>share u a\<close> is a split entry of the documented shape \<^verbatim>\<open>{ userId, shareAmount }\<close>.
\<close>

definition db0 :: db where
  "db0 = \<lparr>group_docs = [], expense_docs = []\<rparr>"

definition trip_body :: group_body where
  "trip_body = \<lparr>req_name = Some ''Trip'', req_members = Some [2, 3]\<rparr>"

definition trip_group :: Group where
  "trip_group = \<lparr>name = ''Trip'', createdBy = 1, members = [1, 2, 3], expenses = []\<rparr>"

definition trip_db :: db where
  "trip_db = \<lparr>group_docs = [trip_group], expense_docs = []\<rparr>"

definition share :: "objectId \<Rightarrow> number \<Rightarrow> split_body" where
  "share u a = \<lparr>req_userId = Given u, req_shareAmount = Given a, req_paid = Missing\<rparr>"

definition unpaid :: "objectId \<Rightarrow> number \<Rightarrow> Split" where
  "unpaid u a = \<lparr>userId = Some u, shareAmount = Some a, split_paid = False\<rparr>"

text \<open>A lunch of 90 split three ways, and the state once it is recorded.\<close>

definition lunch_body :: expense_body where
  "lunch_body =
     \<lparr>req_label = Given ''Lunch'', req_amount = Given 90, req_date = Falsy,
      req_splits = [share 1 30, share 2 30, share 3 30]\<rparr>"

definition lunch :: Expense where
  "lunch =
     \<lparr>label = ''Lunch'', amount = 90, date = 1000, group = 0,
      splits = [unpaid 1 30, unpaid 2 30, unpaid 3 30], paid = False\<rparr>"

definition lunch_db :: db where
  "lunch_db = \<lparr>group_docs = [trip_group\<lparr>expenses := [0]\<rparr>], expense_docs = [lunch]\<rparr>"

text \<open>A dinner of 100 of which the entries account for 80 only.\<close>

definition dinner_body :: expense_body where
  "dinner_body =
     \<lparr>req_label = Given ''Dinner'', req_amount = Given 100, req_date = Falsy,
      req_splits = [share 1 40, share 2 40]\<rparr>"

text \<open>A taxi ride, dated, whose only entry arrives with \<^verbatim>\<open>paid: true\<close>.\<close>

definition taxi_body :: expense_body where
  "taxi_body =
     \<lparr>req_label = Given ''Taxi'', req_amount = Given 20, req_date = Millis 500,
      req_splits = [\<lparr>req_userId = Given 2, req_shareAmount = Given 20, req_paid = Given True\<rparr>]\<rparr>"

text \<open>A negative total, and a request whose label is the empty string.\<close>

definition refund_body :: expense_body where
  "refund_body =
     \<lparr>req_label = Given ''Refund'', req_amount = Given (- 5), req_date = Falsy,
      req_splits = [share 2 (- 5)]\<rparr>"

definition blank_body :: expense_body where
  "blank_body =
     \<lparr>req_label = Given [], req_amount = Given 90, req_date = Falsy,
      req_splits = [share 1 90]\<rparr>"

text \<open>
  The lunch again, with an entry whose \<^verbatim>\<open>userId\<close> is no ObjectId, with the date 0, and
  with a date one millisecond beyond the last one.
\<close>

definition alice_body :: expense_body where
  "alice_body =
     lunch_body\<lparr>req_splits :=
       [\<lparr>req_userId = Uncastable, req_shareAmount = Given 90, req_paid = Missing\<rparr>]\<rparr>"

definition epoch_body :: expense_body where
  "epoch_body = lunch_body\<lparr>req_date := Millis 0\<rparr>"

definition late_body :: expense_body where
  "late_body = lunch_body\<lparr>req_date := Millis 8640000000000001\<rparr>"

text \<open>A member list that names the creator again and user 2 twice.\<close>

definition crowd_body :: group_body where
  "crowd_body = \<lparr>req_name = Some ''Crowd'', req_members = Some [1, 2, 2]\<rparr>"

section \<open>What a route returns\<close>

lemmas sample_defs = db0_def trip_body_def trip_group_def trip_db_def share_def unpaid_def
  lunch_body_def lunch_def lunch_db_def dinner_body_def taxi_body_def refund_body_def
  blank_body_def alice_body_def epoch_body_def late_body_def crowd_body_def

lemmas route_defs = createGroup_def createExpense_def markPaid_def route_expense_def
  route_markPaid_def Group_findById_def Expense_findById_def required_String_def
  new_Expense_def label_path_def amount_path_def date_path_def TimeClip_def ToInteger_def
  cast_split_def value_of_def field_of_def serve_def Let_def

lemma createGroup_Inr:
  assumes "fst (createGroup d u body) = Inr (i, g)"
  shows "i = length (group_docs d)"
    and "g = \<lparr>name = the (req_name body), createdBy = u,
              members = u # the (req_members body), expenses = []\<rparr>"
    and "snd (createGroup d u body) = d\<lparr>group_docs := group_docs d @ [g]\<rparr>"
    and "req_members body \<noteq> None"
    and "required_String (req_name body)"
  using assms by (auto simp: createGroup_def Let_def split: option.splits if_splits)

lemma new_Expense_Some:
  assumes "new_Expense gi now body = Some e"
  shows "label_path (req_label body) = Some (label e)"
    and "amount_path (req_amount body) = Some (amount e)"
    and "date_path now (req_date body) = Some (date e)"
    and "splits_path (req_splits body) = Some (splits e)"
    and "group e = gi"
    and "\<not> paid e"
  using assms by (auto simp: new_Expense_def split: option.splits)

lemma createExpense_Inr:
  assumes "fst (createExpense d u gi now body) = Inr (i, e)"
  shows "i = length (expense_docs d)"
    and "new_Expense gi now body = Some e"
    and "expense_docs (snd (createExpense d u gi now body)) = expense_docs d @ [e]"
    and "gi < length (group_docs d)"
  using assms
  by (auto simp: createExpense_def Group_findById_def Let_def split: option.splits if_splits)

lemma createExpense_Inl:
  "fst (createExpense d u gi now body) = Inl err \<Longrightarrow> snd (createExpense d u gi now body) = d"
  by (auto simp: createExpense_def Let_def split: option.splits if_splits)

text \<open>
  The entries of a request and the splits they become: entry by entry the stored user id
  and share are what the entry gave, and entries that cast become splits.
\<close>

lemma cast_split_Some:
  assumes "cast_split s = Some x"
  shows "req_userId s = field_of (userId x)" and "req_shareAmount s = field_of (shareAmount x)"
  using assms
  by (cases "req_userId s"; cases "req_shareAmount s";
      auto simp: cast_split_def value_of_def field_of_def split: if_splits)+

lemma splits_path_Some:
  "splits_path ss = Some xs \<Longrightarrow>
     map req_userId ss = map (field_of \<circ> userId) xs
     \<and> map req_shareAmount ss = map (field_of \<circ> shareAmount) xs"
proof (induction ss arbitrary: xs)
  case Nil
  then show ?case by simp
next
  case (Cons s ss)
  then show ?case
    by (auto split: option.splits dest: cast_split_Some)
qed

lemma splits_path_casts:
  "list_all (\<lambda>s. cast_split s \<noteq> None) ss \<Longrightarrow> \<exists>xs. splits_path ss = Some xs"
  by (induction ss) auto

lemma splits_path_unpaid:
  "splits_path ss = Some xs \<Longrightarrow> list_all (\<lambda>s. req_paid s = Missing) ss \<Longrightarrow>
     list_all (\<lambda>x. \<not> split_paid x) xs"
proof (induction ss arbitrary: xs)
  case Nil
  then show ?case by simp
next
  case (Cons s ss)
  then show ?case
    by (auto simp: cast_split_def split: option.splits if_splits)
qed

text \<open>
  The route at the requests that do not cast: an entry whose \<^verbatim>\<open>userId\<close> is no ObjectId and
  a date beyond the range end in \<open>ValidationError\<close> with nothing recorded; the date 0 is
  falsy and gives way to the clock; a group id that is no ObjectId ends in \<open>CastError\<close>.
\<close>

lemma createExpense_casts:
  "createExpense trip_db 1 0 1000 alice_body = (Inl ValidationError, trip_db)"
  "createExpense trip_db 1 0 1000 late_body = (Inl ValidationError, trip_db)"
  "createExpense trip_db 1 0 1000 epoch_body = (Inr (0, lunch), lunch_db)"
  "route_expense trip_db 1 NotObjectId 1000 lunch_body = (Inl CastError, trip_db)"
  "route_expense trip_db 1 (ObjectId 0) 1000 lunch_body = (Inr (0, lunch), lunch_db)"
  by (simp_all add: route_defs sample_defs)

section \<open>What a request leaves alone\<close>

text \<open>
  No request removes a group or rewrites its name, creator or members: creating a group
  appends one, creating an expense appends an id to the \<open>expenses\<close> of one group, and
  marking an expense paid writes to the other collection.
\<close>

lemma handle_keeps_group:
  assumes "Group_findById d i = Some g"
  shows "\<exists>g'. Group_findById (handle d r) i = Some g' \<and> members g' = members g
           \<and> createdBy g' = createdBy g \<and> name g' = name g"
proof (cases r)
  case (CreateGroup u b)
  with assms show ?thesis
    by (auto simp: createGroup_def Group_findById_def nth_append Let_def
        split: option.splits if_splits)
next
  case (CreateExpense u gi now b)
  with assms show ?thesis
    by (auto simp: createExpense_def Group_findById_def nth_list_update Let_def
        split: option.splits if_splits)
next
  case (MarkPaid u j)
  with assms show ?thesis
    by (auto simp: markPaid_def Group_findById_def split: option.splits if_splits)
qed

lemma serve_keeps_group:
  "Group_findById d i = Some g \<Longrightarrow>
     \<exists>g'. Group_findById (serve d rs) i = Some g' \<and> members g' = members g
           \<and> createdBy g' = createdBy g \<and> name g' = name g"
proof (induction rs arbitrary: d g)
  case Nil
  then show ?case by (simp add: serve_def)
next
  case (Cons r rs)
  from handle_keeps_group[OF Cons.prems, of r] obtain g1 where
    g1: "Group_findById (handle d r) i = Some g1" "members g1 = members g"
        "createdBy g1 = createdBy g" "name g1 = name g" by blast
  from Cons.IH[OF g1(1)] g1 show ?case by (simp add: serve_def)
qed

text \<open>
  An expense, once recorded, keeps every field but \<open>paid\<close>, and \<open>paid\<close> is raised by a
  \<open>MarkPaid\<close> request for this very expense and by nothing else.
\<close>

lemma handle_keeps_expense:
  assumes "Expense_findById d i = Some e"
  shows "\<exists>e'. Expense_findById (handle d r) i = Some e' \<and> e' = e\<lparr>paid := paid e'\<rparr>
           \<and> (paid e' \<longleftrightarrow> paid e \<or> (\<exists>u. r = MarkPaid u i))"
proof (cases r)
  case (CreateGroup u b)
  with assms show ?thesis
    by (auto simp: createGroup_def Expense_findById_def Let_def
        split: option.splits if_splits)
next
  case (CreateExpense u gi now b)
  with assms show ?thesis
    by (auto simp: createExpense_def Expense_findById_def nth_append Let_def
        split: option.splits if_splits)
next
  case (MarkPaid u j)
  with assms show ?thesis
    by (auto simp: markPaid_def Expense_findById_def nth_list_update
        split: option.splits if_splits)
qed

lemma serve_keeps_expense:
  "Expense_findById d i = Some e \<Longrightarrow>
     \<exists>e'. Expense_findById (serve d rs) i = Some e' \<and> e' = e\<lparr>paid := paid e'\<rparr>
           \<and> (paid e' \<longleftrightarrow> paid e \<or> (\<exists>u. MarkPaid u i \<in> set rs))"
proof (induction rs arbitrary: d e)
  case Nil
  then show ?case by (simp add: serve_def)
next
  case (Cons r rs)
  from handle_keeps_expense[OF Cons.prems, of r] obtain e1 where
    e1: "Expense_findById (handle d r) i = Some e1" "e1 = e\<lparr>paid := paid e1\<rparr>"
        "paid e1 \<longleftrightarrow> paid e \<or> (\<exists>u. r = MarkPaid u i)" by blast
  from Cons.IH[OF e1(1)] obtain e2 where
    e2: "Expense_findById (serve (handle d r) rs) i = Some e2" "e2 = e1\<lparr>paid := paid e2\<rparr>"
        "paid e2 \<longleftrightarrow> paid e1 \<or> (\<exists>u. MarkPaid u i \<in> set rs)" by blast
  have "e2 = e\<lparr>paid := paid e2\<rparr>" using e1(2) e2(2)
    by (metis Expense.surjective Expense.update_convs(6))
  with e1 e2 show ?case by (auto simp: serve_def)
qed

section \<open>Recording an expense\<close>

text \<open>
  C1. The specification has \<open>createExpense\<close> fail with a validation error when the shares
  do not add up to the total (within the rounding tolerance), or the allocations are
  empty, repeat a member or hold a negative share, and never adjust the shares. The route
  compares nothing with the total, counts nothing and looks at no sign: all that is asked
  of an entry is that its paths cast to the types of the schema. What holds: a request
  that fails records nothing; a request that succeeds records, under an id that was free
  before, the user id and the share of every entry as the entry gave them, in the
  request's order; and a request that succeeds still succeeds, under the same id, when
  its allocations are replaced by any others that cast.
\<close>

theorem createExpense_keeps_shares:
  assumes "createExpense d u gi now body = (r, d')"
  shows "case r of
           Inl err \<Rightarrow> d' = d
         | Inr (i, e) \<Rightarrow>
             map req_userId (req_splits body) = map (field_of \<circ> userId) (splits e)
             \<and> map req_shareAmount (req_splits body) = map (field_of \<circ> shareAmount) (splits e)
             \<and> Expense_findById d i = None \<and> Expense_findById d' i = Some e
             \<and> (list_all (\<lambda>s. cast_split s \<noteq> None) ss \<longrightarrow>
                  (\<exists>e'. fst (createExpense d u gi now (body\<lparr>req_splits := ss\<rparr>)) = Inr (i, e')))"
proof (cases r)
  case (Inl err)
  from assms Inl have "fst (createExpense d u gi now body) = Inl err" by simp
  with assms Inl createExpense_Inl[of d u gi now body err] show ?thesis by simp
next
  case (Inr p)
  obtain i e where p: "p = (i, e)" by (cases p)
  from assms Inr p have ok: "fst (createExpense d u gi now body) = Inr (i, e)" by simp
  from assms have d': "d' = snd (createExpense d u gi now body)" by simp
  note ne = createExpense_Inr(2)[OF ok]
  have shares: "map req_userId (req_splits body) = map (field_of \<circ> userId) (splits e)"
    "map req_shareAmount (req_splits body) = map (field_of \<circ> shareAmount) (splits e)"
    using splits_path_Some[OF new_Expense_Some(4)[OF ne]] by simp_all
  have fresh: "Expense_findById d i = None"
    using createExpense_Inr(1)[OF ok] by (simp add: Expense_findById_def)
  have stored: "Expense_findById d' i = Some e"
    using createExpense_Inr(1,3)[OF ok] d' by (simp add: Expense_findById_def)
  have other: "\<exists>e'. fst (createExpense d u gi now (body\<lparr>req_splits := ss\<rparr>)) = Inr (i, e')"
    if "list_all (\<lambda>s. cast_split s \<noteq> None) ss"
  proof -
    from splits_path_casts[OF that] obtain xs where "splits_path ss = Some xs" by blast
    with new_Expense_Some(1,2,3)[OF ne] createExpense_Inr(1,4)[OF ok]
    show ?thesis
      by (simp add: createExpense_def Group_findById_def new_Expense_def Let_def)
  qed
  from shares fresh stored other show ?thesis using Inr p by simp
qed

text \<open>
  The lunch is recorded as asked, and would be with two shares for user 1 and a negative
  one that add up to 73; the lunch with an entry that does not cast records nothing.
\<close>

theorem createExpense_keeps_shares_witness:
  "createExpense trip_db 1 0 1000 lunch_body = (Inr (0, lunch), lunch_db)
   \<and> map req_userId (req_splits lunch_body) = map (field_of \<circ> userId) (splits lunch)
   \<and> map req_shareAmount (req_splits lunch_body) = map (field_of \<circ> shareAmount) (splits lunch)
   \<and> Expense_findById trip_db 0 = None \<and> Expense_findById lunch_db 0 = Some lunch
   \<and> list_all (\<lambda>s. cast_split s \<noteq> None) [share 1 40, share 1 40, share 2 (- 7)]
   \<and> (\<exists>e'. fst (createExpense trip_db 1 0 1000
               (lunch_body\<lparr>req_splits := [share 1 40, share 1 40, share 2 (- 7)]\<rparr>)) = Inr (0, e'))
   \<and> createExpense trip_db 1 0 1000 alice_body = (Inl ValidationError, trip_db)"
proof -
  have ok: "createExpense trip_db 1 0 1000 lunch_body = (Inr (0, lunch), lunch_db)"
    by (simp add: route_defs sample_defs)
  have no: "createExpense trip_db 1 0 1000 alice_body = (Inl ValidationError, trip_db)"
    by (simp add: route_defs sample_defs)
  have c: "list_all (\<lambda>s. cast_split s \<noteq> None) [share 1 40, share 1 40, share 2 (- 7)]"
    by (simp add: cast_split_def share_def)
  from createExpense_keeps_shares[OF ok, of "[share 1 40, share 1 40, share 2 (- 7)]"]
    createExpense_keeps_shares[OF no] ok no c
  show ?thesis by simp
qed

text \<open>
  The dinner of 100 whose two shares of 40 miss the total by 20 is accepted and stored.
\<close>

theorem createExpense_mismatch_counterexample:
  "\<bar>sum_list (map (the \<circ> value_of \<circ> req_shareAmount) (req_splits dinner_body))
      - the (value_of (req_amount dinner_body))\<bar> = 20
   \<and> fst (createExpense trip_db 1 0 1000 dinner_body) =
       Inr (0, \<lparr>label = ''Dinner'', amount = 100, date = 1000, group = 0,
                splits = [unpaid 1 40, unpaid 2 40], paid = False\<rparr>)
   \<and> Expense_findById (snd (createExpense trip_db 1 0 1000 dinner_body)) 0 =
       Some \<lparr>label = ''Dinner'', amount = 100, date = 1000, group = 0,
             splits = [unpaid 1 40, unpaid 2 40], paid = False\<rparr>"
  by (simp add: route_defs sample_defs)

text \<open>
  C4. The specification lets only members of the group add an expense and has
  \<open>createExpense\<close> fail with a forbidden error for anyone else. The route never reads
  \<^verbatim>\<open>req.user\<close> and never looks at \<open>members\<close>. What holds: whoever asks gets the same answer
  and leaves the same state, so a stranger to the group records an expense wherever a
  member does.
\<close>

theorem createExpense_any_requester:
  "createExpense d u gi now body = createExpense d v gi now body
   \<and> route_expense d u p now body = route_expense d v p now body"
  by (simp add: createExpense_def route_expense_def split: param.splits)

text \<open>User 1, a member, and user 7, a stranger, record the same lunch.\<close>

theorem createExpense_any_requester_witness:
  "createExpense trip_db 1 0 1000 lunch_body = createExpense trip_db 7 0 1000 lunch_body
   \<and> createExpense trip_db 7 0 1000 lunch_body = (Inr (0, lunch), lunch_db)"
  using createExpense_any_requester[of trip_db 1 0 1000 lunch_body 7]
  by (simp add: route_defs sample_defs)

text \<open>User 7 is not among the members of ``Trip'' and records the lunch in it.\<close>

theorem createExpense_stranger_counterexample:
  "Group_findById trip_db 0 = Some trip_group \<and> 7 \<notin> set (members trip_group)
   \<and> createExpense trip_db 7 0 1000 lunch_body = (Inr (0, lunch), lunch_db)"
  by (simp add: route_defs sample_defs)

text \<open>
  C5. Every successful \<open>createExpense\<close> is to append and return an expense whose splits
  are all unpaid and whose overall paid flag is false. The route writes \<^verbatim>\<open>paid: false\<close> at
  the top level itself, whatever the body says, but hands the entries on unfiltered, and
  a split is unpaid by the schema's default only. The taxi ride, whose entry arrives
  with \<^verbatim>\<open>paid: true\<close>, is recorded and returned with its split paid.
\<close>

theorem createExpense_taxi_split_paid:
  "fst (createExpense trip_db 1 0 1000 taxi_body) =
     Inr (0, \<lparr>label = ''Taxi'', amount = 20, date = 500, group = 0,
              splits = [\<lparr>userId = Some 2, shareAmount = Some 20, split_paid = True\<rparr>],
              paid = False\<rparr>)
   \<and> Expense_findById (snd (createExpense trip_db 1 0 1000 taxi_body)) 0 =
     Some \<lparr>label = ''Taxi'', amount = 20, date = 500, group = 0,
           splits = [\<lparr>userId = Some 2, shareAmount = Some 20, split_paid = True\<rparr>],
           paid = False\<rparr>"
  by (simp add: route_defs sample_defs)

text \<open>
  The overall flag is false after every successful request, and so is the flag of every
  split when the entries have the documented shape \<^verbatim>\<open>{ userId, shareAmount }\<close>.
\<close>

lemma createExpense_flags:
  assumes "fst (createExpense d u gi now body) = Inr (i, e)"
  shows "\<not> paid e"
    and "list_all (\<lambda>s. req_paid s = Missing) (req_splits body) \<Longrightarrow>
           list_all (\<lambda>x. \<not> split_paid x) (splits e)"
  using new_Expense_Some(4,6)[OF createExpense_Inr(2)[OF assms]] splits_path_unpaid
  by blast+

text \<open>
  C6. The specification has \<open>createExpense\<close> fail with a validation error on an empty
  label and on a total that is not strictly positive. The schema requires \<open>label\<close> and
  \<open>amount\<close> and bounds neither. What holds, in a group that exists: a request whose label
  is empty or missing, or whose amount is missing, fails with \<open>ValidationError\<close> and
  records nothing; and the value of an amount that is there is never looked at: with any
  other number in its place the request fails as before or succeeds as before, the
  stored amount apart.
\<close>

theorem createExpense_required:
  assumes "Group_findById d gi = Some g"
  shows "createExpense d u gi now (body\<lparr>req_label := Given []\<rparr>) = (Inl ValidationError, d)
       \<and> createExpense d u gi now (body\<lparr>req_label := Missing\<rparr>) = (Inl ValidationError, d)
       \<and> createExpense d u gi now (body\<lparr>req_amount := Missing\<rparr>) = (Inl ValidationError, d)
       \<and> (case fst (createExpense d u gi now (body\<lparr>req_amount := Given a\<rparr>)) of
            Inl err \<Rightarrow>
              fst (createExpense d u gi now (body\<lparr>req_amount := Given a'\<rparr>)) = Inl err
          | Inr (i, e) \<Rightarrow>
              amount e = a
              \<and> fst (createExpense d u gi now (body\<lparr>req_amount := Given a'\<rparr>))
                  = Inr (i, e\<lparr>amount := a'\<rparr>))"
  using assms
  by (auto simp: createExpense_def new_Expense_def label_path_def amount_path_def Let_def
      split: option.splits sum.splits)

text \<open>
  The request with the empty label is refused; the lunch is recorded for 90 and for
  \<open>- 5\<close> alike.
\<close>

theorem createExpense_required_witness:
  "Group_findById trip_db 0 = Some trip_group
   \<and> createExpense trip_db 1 0 1000 blank_body = (Inl ValidationError, trip_db)
   \<and> fst (createExpense trip_db 1 0 1000 (lunch_body\<lparr>req_amount := Given (- 5)\<rparr>))
       = Inr (0, lunch\<lparr>amount := - 5\<rparr>)"
proof -
  have g: "Group_findById trip_db 0 = Some trip_group"
    by (simp add: route_defs sample_defs)
  have b: "blank_body\<lparr>req_label := Given []\<rparr> = blank_body" by (simp add: sample_defs)
  have l: "fst (createExpense trip_db 1 0 1000 (lunch_body\<lparr>req_amount := Given 90\<rparr>))
      = Inr (0, lunch)"
    by (simp add: route_defs sample_defs)
  from createExpense_required[OF g, where u = 1 and now = 1000 and body = blank_body]
    createExpense_required[OF g, where u = 1 and now = 1000 and body = lunch_body
      and a = 90 and a' = "- 5"] g b l
  show ?thesis by simp
qed

text \<open>A total of \<open>- 5\<close> under a label that is not empty is accepted and stored.\<close>

theorem createExpense_negative_amount_counterexample:
  "the (value_of (req_amount refund_body)) < 0
   \<and> fst (createExpense trip_db 1 0 1000 refund_body) =
       Inr (0, \<lparr>label = ''Refund'', amount = - 5, date = 1000, group = 0,
                splits = [unpaid 2 (- 5)], paid = False\<rparr>)
   \<and> Expense_findById (snd (createExpense trip_db 1 0 1000 refund_body)) 0 =
       Some \<lparr>label = ''Refund'', amount = - 5, date = 1000, group = 0,
             splits = [unpaid 2 (- 5)], paid = False\<rparr>"
  by (simp add: route_defs sample_defs)

section \<open>Marking an expense paid\<close>

text \<open>
  C2. The specification derives the overall paid flag of an expense from its splits: true
  if and only if every split is paid, so that no operation makes it true while a split
  is unpaid. In the code it is a stored path of its own, and the only route that writes
  to a recorded expense sets it without reading the splits; no route writes a split's
  flag. What holds: from the moment an expense is recorded and over every sequence of
  requests that follows, its splits stay as recorded, and its overall flag is true if
  and only if one of those requests marked this expense paid.
\<close>

theorem paid_follows_markPaid:
  assumes "fst (createExpense d u gi now body) = Inr (i, e)"
  shows "\<exists>e'. Expense_findById (serve (snd (createExpense d u gi now body)) rs) i = Some e'
           \<and> splits e' = splits e
           \<and> (paid e' \<longleftrightarrow> (\<exists>v. MarkPaid v i \<in> set rs))"
proof -
  let ?d1 = "snd (createExpense d u gi now body)"
  have "Expense_findById ?d1 i = Some e"
    using createExpense_Inr(1,3)[OF assms] by (simp add: Expense_findById_def)
  from serve_keeps_expense[OF this, of rs] obtain e' where
    e': "Expense_findById (serve ?d1 rs) i = Some e'" "e' = e\<lparr>paid := paid e'\<rparr>"
        "paid e' \<longleftrightarrow> paid e \<or> (\<exists>v. MarkPaid v i \<in> set rs)" by blast
  have "\<not> paid e" using new_Expense_Some(6)[OF createExpense_Inr(2)[OF assms]] .
  moreover have "splits e' = splits e" using e'(2)
    by (metis Expense.select_convs(5) Expense.surjective Expense.update_convs(6))
  ultimately show ?thesis using e' by auto
qed

text \<open>One request of user 2 turns the flag of the lunch.\<close>

theorem paid_follows_markPaid_witness:
  "fst (createExpense trip_db 1 0 1000 lunch_body) = Inr (0, lunch)
   \<and> (\<exists>e'. Expense_findById
              (serve (snd (createExpense trip_db 1 0 1000 lunch_body)) [MarkPaid 2 0]) 0 = Some e'
            \<and> splits e' = splits lunch
            \<and> (paid e' \<longleftrightarrow> (\<exists>v. MarkPaid v 0 \<in> set [MarkPaid 2 0])))
   \<and> Expense_findById (serve (snd (createExpense trip_db 1 0 1000 lunch_body)) [MarkPaid 2 0]) 0
       = Some (lunch\<lparr>paid := True\<rparr>)"
proof -
  have ok: "fst (createExpense trip_db 1 0 1000 lunch_body) = Inr (0, lunch)"
    by (simp add: route_defs sample_defs)
  have "Expense_findById (serve (snd (createExpense trip_db 1 0 1000 lunch_body)) [MarkPaid 2 0]) 0
       = Some (lunch\<lparr>paid := True\<rparr>)"
    by (simp add: route_defs sample_defs)
  with paid_follows_markPaid[OF ok, of "[MarkPaid 2 0]"] ok show ?thesis by blast
qed

text \<open>The lunch is marked paid as a whole while none of its three splits is.\<close>

theorem markPaid_unpaid_splits_counterexample:
  "Expense_findById lunch_db 0 = Some lunch
   \<and> map split_paid (splits lunch) = [False, False, False]
   \<and> markPaid lunch_db 2 0 =
       (Inr ''Expense marked as paid'',
        lunch_db\<lparr>expense_docs :=
          [\<lparr>label = ''Lunch'', amount = 90, date = 1000, group = 0,
            splits = [unpaid 1 30, unpaid 2 30, unpaid 3 30], paid = True\<rparr>]\<rparr>)"
  by (simp add: route_defs sample_defs)

text \<open>
  C3. The specification marks one split paid exactly once: the call needs the split to
  be there and unpaid, and a second call fails with a conflict. The route marks a whole
  expense, reads no flag before it writes, and has no conflict to answer with. What
  holds: the call succeeds when its id names an expense, paid or not; it answers
  \<open>NotFound\<close> when the id is an ObjectId that names none and \<open>CastError\<close> when the id is no
  ObjectId, and then changes nothing; and a second call with the same id, by anyone,
  gives the answer the first gave and leaves the state the first left.
\<close>

theorem markPaid_repeats:
  "fst (route_markPaid d u p) =
     (case p of
        NotObjectId \<Rightarrow> Inl CastError
      | ObjectId i \<Rightarrow>
          (case Expense_findById d i of
             None \<Rightarrow> Inl (NotFound ''Expense not found'')
           | Some e \<Rightarrow> Inr ''Expense marked as paid''))
   \<and> (isl (fst (route_markPaid d u p)) \<longrightarrow> snd (route_markPaid d u p) = d)
   \<and> route_markPaid (snd (route_markPaid d u p)) v p = route_markPaid d u p"
  by (auto simp: route_markPaid_def markPaid_def Expense_findById_def
      split: param.splits option.splits if_splits)

text \<open>
  The lunch is marked twice with success, by users 2 and 3; an id that names no expense
  and an id that is no ObjectId are refused.
\<close>

theorem markPaid_repeats_witness:
  "route_markPaid lunch_db 2 (ObjectId 0) =
     (Inr ''Expense marked as paid'', lunch_db\<lparr>expense_docs := [lunch\<lparr>paid := True\<rparr>]\<rparr>)
   \<and> route_markPaid (snd (route_markPaid lunch_db 2 (ObjectId 0))) 3 (ObjectId 0) =
     (Inr ''Expense marked as paid'', lunch_db\<lparr>expense_docs := [lunch\<lparr>paid := True\<rparr>]\<rparr>)
   \<and> route_markPaid lunch_db 2 (ObjectId 1) = (Inl (NotFound ''Expense not found''), lunch_db)
   \<and> route_markPaid lunch_db 2 NotObjectId = (Inl CastError, lunch_db)"
proof -
  have "route_markPaid lunch_db 2 (ObjectId 0) =
     (Inr ''Expense marked as paid'', lunch_db\<lparr>expense_docs := [lunch\<lparr>paid := True\<rparr>]\<rparr>)"
    by (simp add: route_defs sample_defs)
  moreover have "snd (route_markPaid lunch_db 2 (ObjectId 1)) = lunch_db"
    "snd (route_markPaid lunch_db 2 NotObjectId) = lunch_db"
    by (simp_all add: route_defs sample_defs)
  ultimately show ?thesis
    using markPaid_repeats[of lunch_db 2 "ObjectId 0" 3]
      markPaid_repeats[of lunch_db 2 "ObjectId 1" 3]
      markPaid_repeats[of lunch_db 2 NotObjectId 3]
    by (simp add: Expense_findById_def lunch_db_def prod_eq_iff)
qed

text \<open>Marking the lunch paid succeeds, and succeeds again on the paid lunch.\<close>

theorem markPaid_twice_counterexample:
  "fst (markPaid lunch_db 2 0) = Inr ''Expense marked as paid''
   \<and> paid (expense_docs (snd (markPaid lunch_db 2 0)) ! 0)
   \<and> fst (markPaid (snd (markPaid lunch_db 2 0)) 2 0) = Inr ''Expense marked as paid''"
  by (simp add: route_defs sample_defs)

text \<open>
  C9. A successful \<open>markPaid\<close> changes, of the expense it names, the top-level \<open>paid\<close> and
  nothing else: label, amount, date, owning group and the whole sequence of splits, each
  with its own flag, are as before. The other expenses and every group are as before
  as well.
\<close>

theorem markPaid_frame:
  assumes "fst (markPaid d u i) = Inr m"
  shows "\<exists>e e'. Expense_findById d i = Some e
           \<and> Expense_findById (snd (markPaid d u i)) i = Some e'
           \<and> label e' = label e \<and> amount e' = amount e \<and> date e' = date e
           \<and> group e' = group e \<and> splits e' = splits e
           \<and> map split_paid (splits e') = map split_paid (splits e)
           \<and> e' = e\<lparr>paid := True\<rparr>
           \<and> expense_docs (snd (markPaid d u i)) = (expense_docs d)[i := e']
           \<and> group_docs (snd (markPaid d u i)) = group_docs d"
  using assms
  by (auto simp: markPaid_def Expense_findById_def split: option.splits if_splits)

text \<open>The lunch after the call is the lunch before it, paid.\<close>

theorem markPaid_frame_witness:
  "fst (markPaid lunch_db 2 0) = Inr ''Expense marked as paid''
   \<and> Expense_findById lunch_db 0 = Some lunch
   \<and> Expense_findById (snd (markPaid lunch_db 2 0)) 0 = Some (lunch\<lparr>paid := True\<rparr>)
   \<and> (\<exists>e e'. Expense_findById lunch_db 0 = Some e
           \<and> Expense_findById (snd (markPaid lunch_db 2 0)) 0 = Some e'
           \<and> label e' = label e \<and> amount e' = amount e \<and> date e' = date e
           \<and> group e' = group e \<and> splits e' = splits e
           \<and> map split_paid (splits e') = map split_paid (splits e)
           \<and> e' = e\<lparr>paid := True\<rparr>
           \<and> expense_docs (snd (markPaid lunch_db 2 0)) = (expense_docs lunch_db)[0 := e']
           \<and> group_docs (snd (markPaid lunch_db 2 0)) = group_docs lunch_db)"
proof -
  have ok: "fst (markPaid lunch_db 2 0) = Inr ''Expense marked as paid''"
    by (simp add: route_defs sample_defs)
  have "Expense_findById lunch_db 0 = Some lunch"
    "Expense_findById (snd (markPaid lunch_db 2 0)) 0 = Some (lunch\<lparr>paid := True\<rparr>)"
    by (simp_all add: route_defs sample_defs)
  with ok markPaid_frame[OF ok] show ?thesis by simp
qed

section \<open>Creating a group\<close>

text \<open>
  C7. The user who creates a group is one of the members of the group created, and
  stays one: after every sequence of requests the group is still there, with the same
  creator and the same members.
\<close>

theorem creator_stays_member:
  assumes "fst (createGroup d u body) = Inr (i, g)"
  shows "createdBy g = u \<and> u \<in> set (members g)
         \<and> (\<exists>g'. Group_findById (serve (snd (createGroup d u body)) rs) i = Some g'
               \<and> createdBy g' = u \<and> members g' = members g \<and> u \<in> set (members g'))"
proof -
  have g: "createdBy g = u" "u \<in> set (members g)"
    using createGroup_Inr(2)[OF assms] by simp_all
  have "Group_findById (snd (createGroup d u body)) i = Some g"
    using createGroup_Inr(1,3)[OF assms] by (simp add: Group_findById_def)
  from serve_keeps_group[OF this, of rs] g show ?thesis by auto
qed

text \<open>
  ``Trip'' after a stranger's expense, a payment and the creation of a second group.
\<close>

theorem creator_stays_member_witness:
  "fst (createGroup db0 1 trip_body) = Inr (0, trip_group)
   \<and> createdBy trip_group = 1 \<and> 1 \<in> set (members trip_group)
   \<and> Group_findById
        (serve (snd (createGroup db0 1 trip_body))
           [CreateExpense 7 0 1000 lunch_body, MarkPaid 2 0, CreateGroup 2 crowd_body]) 0
       = Some (trip_group\<lparr>expenses := [0]\<rparr>)
   \<and> (\<exists>g'. Group_findById
        (serve (snd (createGroup db0 1 trip_body))
           [CreateExpense 7 0 1000 lunch_body, MarkPaid 2 0, CreateGroup 2 crowd_body]) 0
       = Some g' \<and> createdBy g' = 1 \<and> members g' = members trip_group
         \<and> 1 \<in> set (members g'))"
proof -
  have ok: "fst (createGroup db0 1 trip_body) = Inr (0, trip_group)"
    by (simp add: route_defs sample_defs)
  have "Group_findById
        (serve (snd (createGroup db0 1 trip_body))
           [CreateExpense 7 0 1000 lunch_body, MarkPaid 2 0, CreateGroup 2 crowd_body]) 0
       = Some (trip_group\<lparr>expenses := [0]\<rparr>)"
    by (simp add: route_defs sample_defs)
  with ok creator_stays_member[OF ok,
      of "[CreateExpense 7 0 1000 lunch_body, MarkPaid 2 0, CreateGroup 2 crowd_body]"]
  show ?thesis by simp
qed

text \<open>
  C10. The member list of a created group is the creator's id followed by the requested
  members in their order. The creator is its first element, its length is one more than
  the length of the requested list, and nothing is removed: it is free of repetitions
  only if the requested list is and does not name the creator.
\<close>

theorem createGroup_members:
  assumes "fst (createGroup d u body) = Inr (i, g)"
  shows "\<exists>m. req_members body = Some m \<and> members g = u # m \<and> hd (members g) = u
           \<and> length (members g) = Suc (length m)
           \<and> distinct (members g) = (u \<notin> set m \<and> distinct m)
           \<and> Group_findById (snd (createGroup d u body)) i = Some g"
proof -
  from createGroup_Inr(4)[OF assms] obtain m where m: "req_members body = Some m" by blast
  have "members g = u # m" using createGroup_Inr(2)[OF assms] m by simp
  moreover have "Group_findById (snd (createGroup d u body)) i = Some g"
    using createGroup_Inr(1,3)[OF assms] by (simp add: Group_findById_def)
  ultimately show ?thesis using m by simp
qed

text \<open>User 1 asks for the members 1, 2, 2 and gets the members 1, 1, 2, 2.\<close>

theorem createGroup_members_witness:
  "fst (createGroup trip_db 1 crowd_body) =
     Inr (1, \<lparr>name = ''Crowd'', createdBy = 1, members = [1, 1, 2, 2], expenses = []\<rparr>)
   \<and> (\<exists>m. req_members crowd_body = Some m \<and> [1, 1, 2, 2] = 1 # m)
   \<and> Group_findById (snd (createGroup trip_db 1 crowd_body)) 1 =
       Some \<lparr>name = ''Crowd'', createdBy = 1, members = [1, 1, 2, 2], expenses = []\<rparr>"
proof -
  have ok: "fst (createGroup trip_db 1 crowd_body) =
     Inr (1, \<lparr>name = ''Crowd'', createdBy = 1, members = [1, 1, 2, 2], expenses = []\<rparr>)"
    by (simp add: route_defs sample_defs)
  from createGroup_members[OF ok] ok show ?thesis by auto
qed

end
